theory Spec2Isabelle
  imports Complex_Main "HOL-Library.Sublist"
begin

section \<open>Values exchanged with the broker\<close>

text \<open>
  The consumers receive the envelope as the dictionary that \<^verbatim>\<open>request.json()\<close>
  produced, so every field may hold any JSON value. A dictionary is an association list,
  read with \<^verbatim>\<open>dict.get\<close>.
\<close>

datatype json =
    JNull
  | JBool bool
  | JInt int
  | JFloat rat
  | JStr string
  | JArr "json list"
  | JObj "(string \<times> json) list"

type_synonym dict = "(string \<times> json) list"

text \<open>The exceptions (subclasses of \<^verbatim>\<open>Exception\<close>) that the modelled code can raise.\<close>

datatype exn =
    ValueError
  | AttributeError
  | TypeError
  | OverflowError
  | ValidationError
  | TransportError

text \<open>\<^verbatim>\<open>d.get(k)\<close> and \<^verbatim>\<open>d.get(k, default)\<close> on a dictionary.\<close>

definition dict_get_default :: "dict \<Rightarrow> string \<Rightarrow> json \<Rightarrow> json" where
  "dict_get_default d k dflt = (case map_of d k of None \<Rightarrow> dflt | Some v \<Rightarrow> v)"

definition dict_get :: "dict \<Rightarrow> string \<Rightarrow> json" where
  "dict_get d k = dict_get_default d k JNull"

text \<open>Python truthiness, as tested by \<^verbatim>\<open>if not x\<close>.\<close>

fun truthy :: "json \<Rightarrow> bool" where
  "truthy JNull = False"
| "truthy (JBool b) = b"
| "truthy (JInt i) = (i \<noteq> 0)"
| "truthy (JFloat r) = (r \<noteq> 0)"
| "truthy (JStr s) = (s \<noteq> [])"
| "truthy (JArr xs) = (xs \<noteq> [])"
| "truthy (JObj kvs) = (kvs \<noteq> [])"

subsection \<open>String helpers\<close>

text \<open>
  \<^verbatim>\<open>s.replace(old, new)\<close> for a non-empty \<^verbatim>\<open>old\<close>: every non-overlapping occurrence,
  scanning from the left.
\<close>

function str_replace :: "string \<Rightarrow> string \<Rightarrow> string \<Rightarrow> string" where
  "str_replace old new [] = []"
| "str_replace old new (c # cs) =
     (if old \<noteq> [] \<and> take (length old) (c # cs) = old
      then new @ str_replace old new (drop (length old) (c # cs))
      else c # str_replace old new cs)"
  by pat_completeness auto
termination
  by (relation "measure (\<lambda>(old, new, s). length s)") auto

text \<open>\<^verbatim>\<open>s.strip(chars)\<close>: leading and trailing characters of the set removed.\<close>

definition str_strip :: "string \<Rightarrow> string \<Rightarrow> string" where
  "str_strip chars s =
     rev (dropWhile (\<lambda>c. c \<in> set chars) (rev (dropWhile (\<lambda>c. c \<in> set chars) s)))"

definition digit_val :: "char \<Rightarrow> nat option" where
  "digit_val c =
     (let n = of_char c :: nat in
      if 48 \<le> n \<and> n \<le> 57 then Some (n - 48) else None)"

definition hex_val :: "char \<Rightarrow> nat option" where
  "hex_val c =
     (let n = of_char c :: nat in
      if 48 \<le> n \<and> n \<le> 57 then Some (n - 48)
      else if 97 \<le> n \<and> n \<le> 102 then Some (n - 87)
      else if 65 \<le> n \<and> n \<le> 70 then Some (n - 55)
      else None)"

text \<open>A string of digits of the given base read as a number; \<open>None\<close> on any other character.\<close>

fun read_digits :: "(char \<Rightarrow> nat option) \<Rightarrow> nat \<Rightarrow> nat \<Rightarrow> string \<Rightarrow> nat option" where
  "read_digits val base acc [] = Some acc"
| "read_digits val base acc (c # cs) =
     (case val c of
        None \<Rightarrow> None
      | Some v \<Rightarrow> read_digits val base (acc * base + v) cs)"

subsection \<open>UUIDs\<close>

text \<open>
  A UUID is its 128-bit integer value. \<^verbatim>\<open>UUID(x)\<close> of the standard library, on a value
  read from the envelope: a non-string has no \<^verbatim>\<open>replace\<close> method
  (\<^verbatim>\<open>AttributeError\<close>); a string has the prefixes \<^verbatim>\<open>urn:\<close> and \<^verbatim>\<open>uuid:\<close>, surrounding
  braces and hyphens removed and must then be 32 hexadecimal digits, otherwise
  \<^verbatim>\<open>ValueError\<close>. (The library reads the 32 characters with \<^verbatim>\<open>int(_, 16)\<close>, which also
  tolerates a sign, a \<^verbatim>\<open>0x\<close> prefix, underscores and blanks among them; these exotic
  spellings are treated as malformed here.)
\<close>

type_synonym uuid = nat

definition uuid_of_hex :: "string \<Rightarrow> exn + uuid" where
  "uuid_of_hex s =
     (let h1 = str_replace ''uuid:'' '''' (str_replace ''urn:'' '''' s);
          h2 = str_replace ''-'' '''' (str_strip ''{}'' h1)
      in if length h2 \<noteq> 32 then Inl ValueError
         else (case read_digits hex_val 16 0 h2 of
                 None \<Rightarrow> Inl ValueError
               | Some n \<Rightarrow> Inr n))"

fun UUID :: "json \<Rightarrow> exn + uuid" where
  "UUID (JStr s) = uuid_of_hex s"
| "UUID _ = Inl AttributeError"

section \<open>Dates and times\<close>

text \<open>
  A \<^verbatim>\<open>datetime\<close> value of the standard library: the calendar fields and, for an aware
  value, the offset from UTC in microseconds (\<open>Some 0\<close> is \<^verbatim>\<open>timezone.utc\<close>, \<open>None\<close> a
  naive value).
\<close>

record datetime =
  year :: nat
  month :: nat
  day :: nat
  hour :: nat
  minute :: nat
  second :: nat
  microsecond :: nat
  tzinfo :: "int option"

definition MAXYEAR :: nat where
  "MAXYEAR = 9999"

definition is_leap :: "nat \<Rightarrow> bool" where
  "is_leap y = (y mod 4 = 0 \<and> (y mod 100 \<noteq> 0 \<or> y mod 400 = 0))"

definition days_in_month :: "nat \<Rightarrow> nat \<Rightarrow> nat" where
  "days_in_month y m =
     (if m = 2 then (if is_leap y then 29 else 28)
      else if m = 4 \<or> m = 6 \<or> m = 9 \<or> m = 11 then 30
      else 31)"

text \<open>The proleptic Gregorian ordinal of a date (day 1 is 0001-01-01), as \<^verbatim>\<open>toordinal\<close>.\<close>

definition days_before_year :: "nat \<Rightarrow> int" where
  "days_before_year y =
     (let z = int y - 1 in z * 365 + z div 4 - z div 100 + z div 400)"

definition days_before_month :: "nat \<Rightarrow> nat \<Rightarrow> int" where
  "days_before_month y m = (\<Sum>k \<leftarrow> [1..<m]. int (days_in_month y k))"

definition toordinal :: "datetime \<Rightarrow> int" where
  "toordinal dt =
     days_before_year (year dt) + days_before_month (year dt) (month dt) + int (day dt)"

text \<open>The fields a constructed \<^verbatim>\<open>datetime\<close> always satisfies.\<close>

definition valid_datetime :: "datetime \<Rightarrow> bool" where
  "valid_datetime dt =
     (1 \<le> year dt \<and> year dt \<le> MAXYEAR \<and> 1 \<le> month dt \<and> month dt \<le> 12
      \<and> 1 \<le> day dt \<and> day dt \<le> days_in_month (year dt) (month dt)
      \<and> hour dt < 24 \<and> minute dt < 60 \<and> second dt < 60 \<and> microsecond dt < 1000000
      \<and> (case tzinfo dt of None \<Rightarrow> True
          | Some off \<Rightarrow> - 86400000000 < off \<and> off < 86400000000))"

text \<open>
  The instant of an aware value in microseconds, the quantity that the comparison of two
  aware values compares.
\<close>

definition instant :: "datetime \<Rightarrow> int" where
  "instant dt =
     ((toordinal dt * 86400 + int (hour dt) * 3600 + int (minute dt) * 60 + int (second dt))
        * 1000000 + int (microsecond dt))
     - (case tzinfo dt of None \<Rightarrow> 0 | Some off \<Rightarrow> off)"

subsection \<open>Adding a \<^verbatim>\<open>relativedelta\<close>\<close>

text \<open>The calendar day after a date, the time of day kept.\<close>

definition next_day :: "datetime \<Rightarrow> datetime" where
  "next_day dt =
     (if day dt < days_in_month (year dt) (month dt) then dt\<lparr>day := day dt + 1\<rparr>
      else if month dt < 12 then dt\<lparr>month := month dt + 1, day := 1\<rparr>
      else dt\<lparr>year := year dt + 1, month := 1, day := 1\<rparr>)"

text \<open>
  \<^verbatim>\<open>dt + timedelta(days=n)\<close>: \<open>n\<close> calendar days later, \<^verbatim>\<open>OverflowError\<close> once the year
  leaves the supported range.
\<close>

fun add_days :: "nat \<Rightarrow> datetime \<Rightarrow> exn + datetime" where
  "add_days 0 dt = Inr dt"
| "add_days (Suc n) dt =
     (let dt' = next_day dt
      in if year dt' > MAXYEAR then Inl OverflowError else add_days n dt')"

text \<open>
  \<^verbatim>\<open>dt + relativedelta(months=ms, days=ds)\<close> of \<^verbatim>\<open>dateutil\<close>, for \<open>ms \<le> 12\<close>: the month is
  advanced first, carrying into the year; the day is clamped to the length of the month
  reached; \<^verbatim>\<open>replace\<close> raises \<^verbatim>\<open>ValueError\<close> when the year leaves the supported range;
  the days are added last.
\<close>

definition relativedelta_add :: "datetime \<Rightarrow> nat \<Rightarrow> nat \<Rightarrow> exn + datetime" where
  "relativedelta_add dt ms ds =
     (let m0 = month dt + ms;
          y = (if m0 > 12 then year dt + 1 else year dt);
          m = (if m0 > 12 then m0 - 12 else m0);
          d = min (days_in_month y m) (day dt)
      in if y > MAXYEAR then Inl ValueError
         else add_days ds (dt\<lparr>year := y, month := m, day := d\<rparr>))"

subsection \<open>Reading and writing ISO 8601\<close>

text \<open>The characters \<open>i\<close> up to \<open>j\<close> (exclusive) of a string, as the slice \<^verbatim>\<open>s[i:j]\<close>.\<close>

definition slice :: "string \<Rightarrow> nat \<Rightarrow> nat \<Rightarrow> string" where
  "slice s i j = take (j - i) (drop i s)"

definition read_nat :: "string \<Rightarrow> nat option" where
  "read_nat s = (if s = [] then None else read_digits digit_val 10 0 s)"

text \<open>
  A time of day or an offset of the form \<^verbatim>\<open>HH[:MM[:SS[.fff[fff]]]]\<close>, as hours, minutes,
  seconds and microseconds.
\<close>

definition parse_hh_mm_ss_ff :: "string \<Rightarrow> (nat \<times> nat \<times> nat \<times> nat) option" where
  "parse_hh_mm_ss_ff t =
     (let n = length t in
      if n = 2 then
        (case read_nat t of Some h \<Rightarrow> Some (h, 0, 0, 0) | None \<Rightarrow> None)
      else if n = 5 \<and> t ! 2 = CHR '':'' then
        (case (read_nat (slice t 0 2), read_nat (slice t 3 5)) of
           (Some h, Some mi) \<Rightarrow> Some (h, mi, 0, 0)
         | _ \<Rightarrow> None)
      else if 8 \<le> n \<and> t ! 2 = CHR '':'' \<and> t ! 5 = CHR '':'' then
        (case (read_nat (slice t 0 2), read_nat (slice t 3 5), read_nat (slice t 6 8)) of
           (Some h, Some mi, Some s) \<Rightarrow>
             (if n = 8 then Some (h, mi, s, 0)
              else if t ! 8 = CHR ''.'' \<and> (n = 12 \<or> n = 15) then
                (case read_nat (drop 9 t) of
                   Some f \<Rightarrow> Some (h, mi, s, if n = 12 then f * 1000 else f)
                 | None \<Rightarrow> None)
              else None)
         | _ \<Rightarrow> None)
      else None)"

text \<open>The position of the first occurrence of a character, as \<^verbatim>\<open>str.find\<close>.\<close>

fun str_find :: "char \<Rightarrow> string \<Rightarrow> nat option" where
  "str_find c [] = None"
| "str_find c (x # xs) =
     (if x = c then Some 0 else map_option Suc (str_find c xs))"

text \<open>
  \<^verbatim>\<open>datetime.fromisoformat\<close> on the layout that \<^verbatim>\<open>isoformat\<close> writes,
  \<^verbatim>\<open>YYYY-MM-DD[*HH[:MM[:SS[.fff[fff]]]][+HH:MM[:SS[.ffffff]]]]\<close>; \<open>None\<close> stands for
  \<^verbatim>\<open>ValueError\<close>. The offset starts at the first \<^verbatim>\<open>-\<close> of the time part, or else at its
  first \<^verbatim>\<open>+\<close>. (Later versions of the library read further ISO 8601 layouts, which are
  rejected here.)
\<close>

definition parse_isoformat_time ::
  "string \<Rightarrow> (nat \<times> nat \<times> nat \<times> nat \<times> int option) option" where
  "parse_isoformat_time t =
     (if length t < 2 then None
      else
        (case (case str_find CHR ''-'' t of Some p \<Rightarrow> Some p
               | None \<Rightarrow> str_find CHR ''+'' t) of
           None \<Rightarrow>
             (case parse_hh_mm_ss_ff t of
                Some (h, mi, s, f) \<Rightarrow> Some (h, mi, s, f, None)
              | None \<Rightarrow> None)
         | Some p \<Rightarrow>
             (let tz = drop (p + 1) t in
              if length tz \<noteq> 5 \<and> length tz \<noteq> 8 \<and> length tz \<noteq> 15 then None
              else
                (case (parse_hh_mm_ss_ff (take p t), parse_hh_mm_ss_ff tz) of
                   (Some (h, mi, s, f), Some (zh, zm, zs, zf)) \<Rightarrow>
                     (let off = (int zh * 3600 + int zm * 60 + int zs) * 1000000 + int zf;
                          sgn_off = (if t ! p = CHR ''-'' then - off else off)
                      in Some (h, mi, s, f, Some sgn_off))
                 | _ \<Rightarrow> None))))"

definition fromisoformat :: "string \<Rightarrow> datetime option" where
  "fromisoformat s =
     (if length s < 10 \<or> s ! 4 \<noteq> CHR ''-'' \<or> s ! 7 \<noteq> CHR ''-'' then None
      else
        (case (read_nat (slice s 0 4), read_nat (slice s 5 7), read_nat (slice s 8 10)) of
           (Some y, Some m, Some d) \<Rightarrow>
             (case (if length s = 10 then Some (0, 0, 0, 0, None)
                    else parse_isoformat_time (drop 11 s)) of
                Some (h, mi, sec, f, tz) \<Rightarrow>
                  (let dt = \<lparr>year = y, month = m, day = d, hour = h, minute = mi,
                             second = sec, microsecond = f, tzinfo = tz\<rparr>
                   in if valid_datetime dt then Some dt else None)
              | None \<Rightarrow> None)
         | _ \<Rightarrow> None))"

text \<open>A number written with exactly \<open>w\<close> decimal digits, as \<^verbatim>\<open>"%0wd"\<close> for a number that fits.\<close>

definition digit_char :: "nat \<Rightarrow> char" where
  "digit_char k = ''0123456789'' ! k"

fun pad :: "nat \<Rightarrow> nat \<Rightarrow> string" where
  "pad 0 n = []"
| "pad (Suc w) n = pad w (n div 10) @ [digit_char (n mod 10)]"

definition format_offset :: "int \<Rightarrow> string" where
  "format_offset off =
     (let a = nat \<bar>off\<bar>;
          secs = a div 1000000;
          us = a mod 1000000;
          hh = secs div 3600;
          mm = (secs mod 3600) div 60;
          ss = secs mod 60
      in (if off < 0 then ''-'' else ''+'') @ pad 2 hh @ '':'' @ pad 2 mm
         @ (if ss \<noteq> 0 \<or> us \<noteq> 0 then '':'' @ pad 2 ss else [])
         @ (if us \<noteq> 0 then ''.'' @ pad 6 us else []))"

definition isoformat :: "datetime \<Rightarrow> string" where
  "isoformat dt =
     pad 4 (year dt) @ ''-'' @ pad 2 (month dt) @ ''-'' @ pad 2 (day dt) @ ''T''
     @ pad 2 (hour dt) @ '':'' @ pad 2 (minute dt) @ '':'' @ pad 2 (second dt)
     @ (if microsecond dt \<noteq> 0 then ''.'' @ pad 6 (microsecond dt) else [])
     @ (case tzinfo dt of None \<Rightarrow> [] | Some off \<Rightarrow> format_offset off)"

section \<open>The consumers\<close>

text \<open>
  What a consumer can observe and change: its processed-event ledger, the audit table, the
  requests sent to the task-creation interface and the log. Each service owns its own
  copy; a handler only touches the parts its source touches. One clock reading \<open>now\<close>
  stands for the calls of \<^verbatim>\<open>datetime.now(timezone.utc)\<close> made during one delivery, and
  the store is taken to accept every row handed to \<^verbatim>\<open>commit\<close>.
\<close>

datatype status = SUCCESS | RETRY | DROP

datatype level = INFO | WARNING | ERROR

text \<open>A log call: level, the fixed text of the message, and the interpolated values.\<close>

datatype log_line = Log level string "json list"

record processed_event =
  event_id :: uuid
  service_name :: string
  processed_at :: datetime

text \<open>
  An \<^verbatim>\<open>AuditEntry\<close> row. The handler passes \<^verbatim>\<open>task_id\<close> through \<^verbatim>\<open>UUID\<close> only when it
  is a string, so the field holds either a UUID or the value as received.
\<close>

record audit_entry =
  audit_id :: uuid
  audit_event_type :: json
  audit_task_id :: "json + uuid"
  audit_user_id :: json
  audit_event_data :: dict
  audit_timestamp :: datetime

text \<open>
  The request of the Recurrence Engine to the task-creation interface: the settings and
  the user id that make up the URL, and the JSON body.
\<close>

record post_request =
  post_port :: nat
  post_app_id :: string
  post_user_id :: json
  post_json :: dict

text \<open>What an HTTP call comes back with: a response (status code and text) or an exception.\<close>

datatype http_outcome = Response nat string | Raised exn

record consumer_state =
  processed_events :: "processed_event list"
  audit_entries :: "audit_entry list"
  posts :: "post_request list"
  log :: "log_line list"

text \<open>The settings of the Recurrence Engine read by \<^verbatim>\<open>get_settings()\<close>.\<close>

record settings =
  DAPR_HTTP_PORT :: nat
  BACKEND_APP_ID :: string

definition logger :: "level \<Rightarrow> string \<Rightarrow> json list \<Rightarrow> consumer_state \<Rightarrow> consumer_state" where
  "logger l m vs s = s\<lparr>log := log s @ [Log l m vs]\<rparr>"

text \<open>\<^verbatim>\<open>session.get(ProcessedEvent, u)\<close>: the ledger row with that primary key, if any.\<close>

definition session_get :: "consumer_state \<Rightarrow> uuid \<Rightarrow> processed_event option" where
  "session_get s u = find (\<lambda>r. event_id r = u) (processed_events s)"

text \<open>\<^verbatim>\<open>session.add(ProcessedEvent(event_id=u, service_name=n)); session.commit()\<close>.\<close>

definition record_processed ::
  "datetime \<Rightarrow> uuid \<Rightarrow> string \<Rightarrow> consumer_state \<Rightarrow> consumer_state" where
  "record_processed now u n s =
     s\<lparr>processed_events := processed_events s
          @ [\<lparr>event_id = u, service_name = n, processed_at = now\<rparr>]\<rparr>"

text \<open>Sequencing of steps that may raise: the first exception ends the handler.\<close>

definition attempt :: "exn + 'a \<Rightarrow> ('a \<Rightarrow> exn + 'b) \<Rightarrow> exn + 'b" where
  "attempt x f = (case x of Inl e \<Rightarrow> Inl e | Inr v \<Rightarrow> f v)"

text \<open>The log lines that are notifications, the effect of the Notification Dispatcher.\<close>

definition NOTIFICATION :: string where
  "NOTIFICATION = ''NOTIFICATION: Reminder triggered''"

fun is_notification :: "log_line \<Rightarrow> bool" where
  "is_notification (Log l m vs) = (m = NOTIFICATION)"

definition notifications :: "consumer_state \<Rightarrow> log_line list" where
  "notifications s = filter is_notification (log s)"

subsection \<open>Notification Dispatcher\<close>

definition handle_reminder_event ::
  "datetime \<Rightarrow> dict \<Rightarrow> consumer_state \<Rightarrow> exn + (status \<times> consumer_state)" where
  "handle_reminder_event now event_data s =
     (let ev_id = dict_get event_data ''id'' in
      if \<not> truthy ev_id then
        Inr (DROP, logger WARNING ''Received event without id, skipping'' [] s)
      else
        attempt (UUID ev_id) (\<lambda>u.
          if session_get s u \<noteq> None then
            Inr (SUCCESS, logger INFO ''Event already processed, skipping'' [ev_id] s)
          else
            (case dict_get_default event_data ''data'' (JObj []) of
               JObj data \<Rightarrow>
                 (let reminder_id = dict_get data ''reminder_id'';
                      task_id = dict_get data ''task_id'';
                      title = dict_get data ''title'';
                      user_id = dict_get data ''user_id'';
                      due_at = dict_get data ''due_at'';
                      remind_at = dict_get data ''remind_at'';
                      s1 = logger INFO NOTIFICATION
                             [user_id, task_id, title, due_at, remind_at, reminder_id] s
                  in attempt (UUID ev_id) (\<lambda>u'.
                       Inr (SUCCESS, record_processed now u' ''notification-service'' s1)))
             | _ \<Rightarrow> Inl AttributeError)))"

subsection \<open>Audit Recorder\<close>

definition VALID_EVENT_TYPES :: "string list" where
  "VALID_EVENT_TYPES = [''created'', ''updated'', ''completed'', ''deleted'']"

text \<open>
  \<^verbatim>\<open>event_type not in VALID_EVENT_TYPES\<close> on a set of strings: a list or a dictionary
  cannot be hashed (\<^verbatim>\<open>TypeError\<close>), any other non-string is simply not a member.
\<close>

fun not_in_valid_event_types :: "json \<Rightarrow> exn + bool" where
  "not_in_valid_event_types (JStr t) = Inr (t \<notin> set VALID_EVENT_TYPES)"
| "not_in_valid_event_types (JArr xs) = Inl TypeError"
| "not_in_valid_event_types (JObj kvs) = Inl TypeError"
| "not_in_valid_event_types _ = Inr True"

text \<open>
  The guarded parse of the timestamp: \<^verbatim>\<open>ValueError\<close> (unreadable string) and
  \<^verbatim>\<open>AttributeError\<close> (a truthy value without \<^verbatim>\<open>replace\<close>) both fall back to the clock.
\<close>

definition parse_timestamp :: "datetime \<Rightarrow> json \<Rightarrow> datetime" where
  "parse_timestamp now timestamp_str =
     (if truthy timestamp_str then
        (case timestamp_str of
           JStr t \<Rightarrow>
             (case fromisoformat (str_replace ''Z'' ''+00:00'' t) of
                Some ts \<Rightarrow> ts
              | None \<Rightarrow> now)
         | _ \<Rightarrow> now)
      else now)"

text \<open>\<^verbatim>\<open>UUID(task_id) if isinstance(task_id, str) else task_id\<close>.\<close>

fun task_id_field :: "json \<Rightarrow> exn + (json + uuid)" where
  "task_id_field (JStr t) = attempt (uuid_of_hex t) (\<lambda>u. Inr (Inr u))"
| "task_id_field v = Inr (Inl v)"

text \<open>The handler of the Audit Recorder; \<open>fresh\<close> is the value \<^verbatim>\<open>uuid4()\<close> returns.\<close>

definition audit_handle_task_event ::
  "datetime \<Rightarrow> uuid \<Rightarrow> dict \<Rightarrow> consumer_state \<Rightarrow> exn + (status \<times> consumer_state)" where
  "audit_handle_task_event now fresh event_data s =
     (let ev_id = dict_get event_data ''id'' in
      if \<not> truthy ev_id then
        Inr (DROP, logger WARNING ''Received event without id, skipping'' [] s)
      else
        attempt (UUID ev_id) (\<lambda>u.
          if session_get s u \<noteq> None then
            Inr (SUCCESS, logger INFO ''Event already processed, skipping'' [ev_id] s)
          else
            (case dict_get_default event_data ''data'' (JObj []) of
               JObj data \<Rightarrow>
                 (let event_type = dict_get data ''event_type'';
                      task_id = dict_get data ''task_id'';
                      user_id = dict_get data ''user_id'';
                      timestamp_str = dict_get data ''timestamp''
                  in if \<not> truthy event_type \<or> \<not> truthy task_id \<or> \<not> truthy user_id then
                       Inr (DROP, logger WARNING ''Event missing required fields, dropping''
                                    [ev_id] s)
                     else
                       attempt (not_in_valid_event_types event_type) (\<lambda>unknown.
                         if unknown then
                           Inr (DROP, logger WARNING ''Unknown event_type, dropping''
                                        [event_type] s)
                         else
                           (let ts = parse_timestamp now timestamp_str in
                            attempt (task_id_field task_id) (\<lambda>tid.
                            attempt (UUID ev_id) (\<lambda>u'.
                              (let entry = \<lparr>audit_id = fresh, audit_event_type = event_type,
                                            audit_task_id = tid, audit_user_id = user_id,
                                            audit_event_data = data, audit_timestamp = ts\<rparr>;
                                   s1 = s\<lparr>audit_entries := audit_entries s @ [entry]\<rparr>;
                                   s2 = record_processed now u' ''audit-service'' s1
                               in Inr (SUCCESS,
                                       logger INFO ''Audit entry created''
                                         [event_type, task_id, user_id] s2)))))))
             | _ \<Rightarrow> Inl AttributeError)))"

subsection \<open>Recurrence Engine\<close>

text \<open>
  \<^verbatim>\<open>compute_next_due_date\<close>. Both arguments come out of the event payload; the rule is only
  compared with the three names, and any other value, string or not, takes the default.
\<close>

definition compute_next_due_date :: "datetime \<Rightarrow> json \<Rightarrow> json \<Rightarrow> exn + string" where
  "compute_next_due_date now current_due_at recurrence_rule =
     (let base =
            (if truthy current_due_at then
               (case current_due_at of
                  JStr t \<Rightarrow>
                    (case fromisoformat (str_replace ''Z'' ''+00:00'' t) of
                       Some b \<Rightarrow> b
                     | None \<Rightarrow> now)
                | _ \<Rightarrow> now)
             else now);
          next_date =
            (if recurrence_rule = JStr ''daily'' then relativedelta_add base 0 1
             else if recurrence_rule = JStr ''weekly'' then relativedelta_add base 0 7
             else if recurrence_rule = JStr ''monthly'' then relativedelta_add base 1 0
             else relativedelta_add base 0 1)
      in attempt next_date (\<lambda>d. Inr (isoformat d)))"

text \<open>
  The request body built for the successor task, and the request itself.
\<close>

definition new_task_payload :: "dict \<Rightarrow> string \<Rightarrow> json \<Rightarrow> dict" where
  "new_task_payload task_data next_due_at recurrence_rule =
     [(''title'', dict_get_default task_data ''title'' (JStr [])),
      (''description'', dict_get task_data ''description''),
      (''priority'', dict_get task_data ''priority''),
      (''tags'', dict_get_default task_data ''tags'' (JArr [])),
      (''due_at'', JStr next_due_at),
      (''is_recurring'', JBool True),
      (''recurrence_rule'', recurrence_rule)]"

text \<open>
  The guarded call, and the ledger write that follows a success.
  \<open>outcome\<close> is what the call comes back with.
\<close>

definition create_next_task ::
  "settings \<Rightarrow> datetime \<Rightarrow> http_outcome \<Rightarrow> json \<Rightarrow> json \<Rightarrow> json \<Rightarrow> dict \<Rightarrow> string \<Rightarrow> json
     \<Rightarrow> consumer_state \<Rightarrow> exn + (status \<times> consumer_state)" where
  "create_next_task cfg now outcome ev_id user_id task_id task_data next_due_at rule s =
     (let req = \<lparr>post_port = DAPR_HTTP_PORT cfg, post_app_id = BACKEND_APP_ID cfg,
                 post_user_id = user_id,
                 post_json = new_task_payload task_data next_due_at rule\<rparr>;
          s1 = s\<lparr>posts := posts s @ [req]\<rparr>
      in case outcome of
           Response code body \<Rightarrow>
             (if code = 200 \<or> code = 201 then
                attempt (UUID ev_id) (\<lambda>u'.
                  Inr (SUCCESS,
                       record_processed now u' ''recurring-service''
                         (logger INFO ''Created next recurring task''
                            [user_id, task_id, JStr next_due_at] s1)))
              else
                Inr (RETRY,
                     logger ERROR ''Failed to create recurring task''
                       [JInt (int code), JStr body] s1))
         | Raised e \<Rightarrow>
             Inr (RETRY, logger ERROR ''Error creating recurring task'' [] s1))"

text \<open>The handler of the Recurrence Engine.\<close>

definition recurring_handle_task_event ::
  "settings \<Rightarrow> datetime \<Rightarrow> http_outcome \<Rightarrow> dict \<Rightarrow> consumer_state
     \<Rightarrow> exn + (status \<times> consumer_state)" where
  "recurring_handle_task_event cfg now outcome event_data s =
     (let ev_id = dict_get event_data ''id'' in
      if \<not> truthy ev_id then
        Inr (DROP, logger WARNING ''Received event without id, skipping'' [] s)
      else
        attempt (UUID ev_id) (\<lambda>u.
          if session_get s u \<noteq> None then
            Inr (SUCCESS, logger INFO ''Event already processed, skipping'' [ev_id] s)
          else
            (case dict_get_default event_data ''data'' (JObj []) of
               JObj data \<Rightarrow>
                 (let event_type = dict_get data ''event_type'';
                      task_id = dict_get data ''task_id'';
                      user_id = dict_get data ''user_id''
                  in case dict_get_default data ''task_data'' (JObj []) of
                       JObj task_data \<Rightarrow>
                         (let is_recurring =
                                dict_get_default task_data ''is_recurring'' (JBool False)
                          in if event_type \<noteq> JStr ''completed'' \<or> \<not> truthy is_recurring then
                               attempt (UUID ev_id) (\<lambda>u'.
                                 Inr (SUCCESS, record_processed now u' ''recurring-service'' s))
                             else
                               (let recurrence_rule = dict_get task_data ''recurrence_rule'' in
                                if \<not> truthy recurrence_rule then
                                  attempt (UUID ev_id) (\<lambda>u'.
                                    Inr (SUCCESS,
                                         record_processed now u' ''recurring-service''
                                           (logger WARNING
                                              ''Recurring task has no recurrence_rule, skipping''
                                              [task_id] s)))
                                else
                                  attempt (compute_next_due_date now
                                         (dict_get task_data ''due_at'') recurrence_rule)
                                    (\<lambda>next_due_at.
                                       create_next_task cfg now outcome ev_id user_id task_id
                                         task_data next_due_at recurrence_rule s)))
                     | _ \<Rightarrow> Inl AttributeError)
             | _ \<Rightarrow> Inl AttributeError)))"

section \<open>The task API side\<close>

text \<open>The rows of the relational store that the core reads and writes.\<close>

record task =
  task_id :: uuid
  task_user_id :: string
  title :: string
  description :: "string option"
  completed :: bool
  task_created_at :: datetime
  task_updated_at :: datetime
  priority :: "string option"
  tags :: "string list"
  due_at :: "datetime option"
  is_recurring :: bool
  recurrence_rule :: "string option"

record reminder =
  reminder_id :: uuid
  reminder_task_id :: uuid
  reminder_user_id :: string
  remind_at :: datetime
  reminder_created_at :: datetime

text \<open>The payload schemas of the three topics.\<close>

record task_data =
  td_title :: string
  td_description :: "string option"
  td_completed :: bool
  td_priority :: "string option"
  td_tags :: "string list"
  td_due_at :: "datetime option"
  td_is_recurring :: bool
  td_recurrence_rule :: "string option"

datatype payload =
    TaskEventPayload string uuid string task_data datetime
  | TaskUpdateEventPayload uuid string string datetime
  | ReminderEventPayload uuid uuid string string "datetime option" datetime datetime

text \<open>The CloudEvents 1.0 envelope, with the defaults of its class.\<close>

record cloud_event =
  ce_id :: uuid
  ce_source :: string
  ce_type :: string
  ce_data :: payload
  ce_datacontenttype :: string
  ce_specversion :: string
  ce_time :: datetime

definition CloudEvent :: "uuid \<Rightarrow> string \<Rightarrow> payload \<Rightarrow> datetime \<Rightarrow> cloud_event" where
  "CloudEvent i t d tm =
     \<lparr>ce_id = i, ce_source = ''todo-backend'', ce_type = t, ce_data = d,
      ce_datacontenttype = ''application/json'', ce_specversion = ''1.0'', ce_time = tm\<rparr>"

text \<open>The name of a reminder's job, \<^verbatim>\<open>f"reminder-{reminder.id}"\<close>.\<close>

datatype job_name = Reminder_job uuid

text \<open>The requests sent to the scheduler.\<close>

record job_payload =
  jp_name :: job_name
  jp_schedule :: string
  jp_data :: "uuid \<times> uuid \<times> string"
  jp_retries :: nat
  jp_retryDelay :: nat

datatype job_request = Schedule job_payload | Cancel job_name

text \<open>
  The state of the task API: its two tables, the envelopes posted to the broker (with
  their topic, whatever the answer), the requests sent to the scheduler, and the log.
\<close>

record backend_state =
  tasks :: "task list"
  reminders :: "reminder list"
  broker_posts :: "(string \<times> cloud_event) list"
  job_requests :: "job_request list"
  backend_log :: "log_line list"

definition blog :: "level \<Rightarrow> string \<Rightarrow> backend_state \<Rightarrow> backend_state" where
  "blog l m s = s\<lparr>backend_log := backend_log s @ [Log l m []]\<rparr>"

subsection \<open>Event Publisher\<close>

text \<open>
  Every operation is one guarded block: whatever is raised inside it is logged and turned
  into \<open>False\<close>. The block starts by reading the attributes of its arguments and validating
  them against the payload schema; \<open>Inl e\<close> for the task argument stands for an argument
  on which that raises \<open>e\<close>, \<open>Inr t\<close> for one that is read as \<open>t\<close>. \<open>fresh\<close> is the value of
  \<^verbatim>\<open>uuid4()\<close> and \<open>outcome\<close> what the HTTP call comes back with.
\<close>

definition publish ::
  "string \<Rightarrow> string \<Rightarrow> string \<Rightarrow> cloud_event \<Rightarrow> http_outcome \<Rightarrow> backend_state
     \<Rightarrow> exn + (bool \<times> backend_state)" where
  "publish topic_name ok_msg fail_msg cloud_event outcome s =
     (let s1 = s\<lparr>broker_posts := broker_posts s @ [(topic_name, cloud_event)]\<rparr>
      in case outcome of
           Response code body \<Rightarrow>
             (if code = 200 then Inr (True, blog INFO ok_msg s1)
              else Inr (False, blog ERROR fail_msg s1))
         | Raised e \<Rightarrow> Inr (False, blog ERROR fail_msg s1))"

definition publish_task_event ::
  "datetime \<Rightarrow> uuid \<Rightarrow> http_outcome \<Rightarrow> string \<Rightarrow> exn + task \<Rightarrow> string \<Rightarrow> backend_state
     \<Rightarrow> exn + (bool \<times> backend_state)" where
  "publish_task_event now fresh outcome event_type task_arg user_id s =
     (case task_arg of
        Inl e \<Rightarrow> Inr (False, blog ERROR ''Error publishing task event'' s)
      | Inr t \<Rightarrow>
          (let snapshot = \<lparr>td_title = title t, td_description = description t,
                           td_completed = completed t, td_priority = priority t,
                           td_tags = tags t, td_due_at = due_at t,
                           td_is_recurring = is_recurring t,
                           td_recurrence_rule = recurrence_rule t\<rparr>;
               pl = TaskEventPayload event_type (task_id t) user_id snapshot now;
               cloud_event = CloudEvent fresh (''com.todo.task.'' @ event_type) pl now
           in publish ''task-events'' ''Task event published successfully''
                ''Failed to publish task event'' cloud_event outcome s))"

definition publish_task_update_event ::
  "datetime \<Rightarrow> uuid \<Rightarrow> http_outcome \<Rightarrow> string \<Rightarrow> exn + uuid \<Rightarrow> string \<Rightarrow> backend_state
     \<Rightarrow> exn + (bool \<times> backend_state)" where
  "publish_task_update_event now fresh outcome change_type task_id_arg user_id s =
     (case task_id_arg of
        Inl e \<Rightarrow> Inr (False, blog ERROR ''Error publishing task update event'' s)
      | Inr tid \<Rightarrow>
          (let pl = TaskUpdateEventPayload tid user_id change_type now;
               cloud_event = CloudEvent fresh (''com.todo.task.update.'' @ change_type) pl now
           in publish ''task-updates'' ''Task update event published successfully''
                ''Failed to publish task update event'' cloud_event outcome s))"

definition publish_reminder_event ::
  "datetime \<Rightarrow> uuid \<Rightarrow> http_outcome \<Rightarrow> uuid \<Rightarrow> exn + task \<Rightarrow> string \<Rightarrow> datetime
     \<Rightarrow> backend_state \<Rightarrow> exn + (bool \<times> backend_state)" where
  "publish_reminder_event now fresh outcome rid task_arg user_id rat s =
     (case task_arg of
        Inl e \<Rightarrow> Inr (False, blog ERROR ''Error publishing reminder event'' s)
      | Inr t \<Rightarrow>
          (let pl = ReminderEventPayload rid (task_id t) (title t) user_id (due_at t) rat now;
               cloud_event = CloudEvent fresh ''com.todo.reminder.trigger'' pl now
           in publish ''reminders'' ''Reminder event published successfully''
                ''Failed to publish reminder event'' cloud_event outcome s))"

subsection \<open>Job Scheduler Client\<close>

definition schedule_reminder_job ::
  "http_outcome \<Rightarrow> job_name \<Rightarrow> datetime \<Rightarrow> uuid \<times> uuid \<times> string \<Rightarrow> backend_state
     \<Rightarrow> exn + (bool \<times> backend_state)" where
  "schedule_reminder_job outcome name schedule_time data s =
     (let jp = \<lparr>jp_name = name, jp_schedule = isoformat schedule_time, jp_data = data,
                jp_retries = 3, jp_retryDelay = 10\<rparr>;
          s1 = s\<lparr>job_requests := job_requests s @ [Schedule jp]\<rparr>
      in case outcome of
           Response code body \<Rightarrow>
             (if code = 200 \<or> code = 201 then
                Inr (True, blog INFO ''Dapr job scheduled successfully'' s1)
              else Inr (False, blog ERROR ''Failed to schedule Dapr job'' s1))
         | Raised e \<Rightarrow> Inr (False, blog ERROR ''Error scheduling Dapr job'' s1))"

definition cancel_reminder_job ::
  "http_outcome \<Rightarrow> job_name \<Rightarrow> backend_state \<Rightarrow> exn + (bool \<times> backend_state)" where
  "cancel_reminder_job outcome name s =
     (let s1 = s\<lparr>job_requests := job_requests s @ [Cancel name]\<rparr>
      in case outcome of
           Response code body \<Rightarrow>
             (if code = 204 then Inr (True, blog INFO ''Dapr job canceled successfully'' s1)
              else if code = 404 then
                Inr (True, blog INFO ''Dapr job not found (already canceled?)'' s1)
              else Inr (False, blog ERROR ''Failed to cancel Dapr job'' s1))
         | Raised e \<Rightarrow> Inr (False, blog ERROR ''Error canceling Dapr job'' s1))"

subsection \<open>Reminder routes\<close>

text \<open>An \<^verbatim>\<open>HTTPException\<close> with its status code and detail.\<close>

datatype http_error = HTTPException nat string

definition verify_user_access :: "string \<Rightarrow> string \<Rightarrow> http_error option" where
  "verify_user_access token_user_id url_user_id =
     (if token_user_id \<noteq> url_user_id then Some (HTTPException 403 ''Forbidden'') else None)"

text \<open>\<^verbatim>\<open>select(Task).where(Task.id == i, Task.user_id == u)\<close>, first row.\<close>

definition select_task :: "backend_state \<Rightarrow> uuid \<Rightarrow> string \<Rightarrow> task option" where
  "select_task s i u = find (\<lambda>t. task_id t = i \<and> task_user_id t = u) (tasks s)"

text \<open>\<^verbatim>\<open>session.get(Reminder, i)\<close>: the row with that primary key.\<close>

definition get_reminder :: "backend_state \<Rightarrow> uuid \<Rightarrow> reminder option" where
  "get_reminder s i = find (\<lambda>r. reminder_id r = i) (reminders s)"

text \<open>
  The lookup of \<^verbatim>\<open>delete_reminder\<close>,
  \<^verbatim>\<open>select(Reminder).where(Reminder.id == i, Reminder.task_id == t, Reminder.user_id == u)\<close>,
  first row: a reminder is found only for its own task and user.
\<close>

definition select_reminder :: "backend_state \<Rightarrow> uuid \<Rightarrow> uuid \<Rightarrow> string \<Rightarrow> reminder option" where
  "select_reminder s i t u =
     find (\<lambda>r. reminder_id r = i \<and> reminder_task_id r = t \<and> reminder_user_id r = u)
       (reminders s)"

text \<open>
  The normalisation of \<^verbatim>\<open>remind_at\<close> before the comparison: a naive value is taken as UTC
  (\<^verbatim>\<open>replace(tzinfo=timezone.utc)\<close>). Two aware values are compared by their instants.
\<close>

definition as_utc :: "datetime \<Rightarrow> datetime" where
  "as_utc dt = (if tzinfo dt = None then dt\<lparr>tzinfo := Some 0\<rparr> else dt)"

text \<open>
  \<^verbatim>\<open>create_reminder\<close>. \<open>token_user_id\<close> is the user of the verified token, \<open>fresh\<close> the id
  the new row gets, \<open>outcome\<close> what the scheduler answers. The result is the response (an
  error, or the reminder returned with status 201) together with the state left behind.
\<close>

definition create_reminder ::
  "datetime \<Rightarrow> uuid \<Rightarrow> http_outcome \<Rightarrow> string \<Rightarrow> uuid \<Rightarrow> datetime \<Rightarrow> string \<Rightarrow> backend_state
     \<Rightarrow> (http_error + reminder) \<times> backend_state" where
  "create_reminder now fresh outcome user_id tid reminder_data_remind_at token_user_id s =
     (case verify_user_access token_user_id user_id of
        Some err \<Rightarrow> (Inl err, s)
      | None \<Rightarrow>
          (let rat = as_utc reminder_data_remind_at
           in if instant rat \<le> instant now then
                (Inl (HTTPException 400 ''remind_at must be in the future''), s)
              else
                (case select_task s tid token_user_id of
                   None \<Rightarrow> (Inl (HTTPException 404 ''Task not found''), s)
                 | Some t \<Rightarrow>
                     (let r = \<lparr>reminder_id = fresh, reminder_task_id = tid,
                               reminder_user_id = token_user_id,
                               remind_at = reminder_data_remind_at,
                               reminder_created_at = now\<rparr>;
                          s1 = s\<lparr>reminders := reminders s @ [r]\<rparr>;
                          job_data = (reminder_id r, tid, token_user_id)
                      in case schedule_reminder_job outcome (Reminder_job (reminder_id r))
                                reminder_data_remind_at job_data s1 of
                           Inl e \<Rightarrow> (Inl (HTTPException 500 ''Internal Server Error''), s1)
                         | Inr (success, s2) \<Rightarrow>
                             (if \<not> success then
                                (Inr r, blog WARNING ''Failed to schedule Dapr job for reminder'' s2)
                              else (Inr r, s2))))))"

subsection \<open>Reminder Callback Handler\<close>

text \<open>
  \<^verbatim>\<open>trigger_reminder\<close>, on the request body \<open>(rid, tid, user_id)\<close>; the result is the
  response, \<open>Inr ()\<close> for \<^verbatim>\<open>{"status": "ok"}\<close>, and the state left behind.
\<close>

definition trigger_reminder ::
  "datetime \<Rightarrow> uuid \<Rightarrow> http_outcome \<Rightarrow> uuid \<Rightarrow> uuid \<Rightarrow> string \<Rightarrow> backend_state
     \<Rightarrow> (http_error + unit) \<times> backend_state" where
  "trigger_reminder now fresh outcome rid tid user_id s =
     (let s0 = blog INFO ''Reminder trigger'' s in
      case get_reminder s0 rid of
        None \<Rightarrow>
          (Inl (HTTPException 404 ''Reminder not found''),
           blog WARNING ''Reminder not found'' s0)
      | Some r \<Rightarrow>
          (case select_task s0 tid user_id of
             None \<Rightarrow>
               (Inl (HTTPException 404 ''Task not found''),
                blog WARNING ''Task not found'' s0)
           | Some t \<Rightarrow>
               (case publish_reminder_event now fresh outcome rid (Inr t) user_id
                       (remind_at r) s0 of
                  Inl e \<Rightarrow> (Inl (HTTPException 500 ''Internal Server Error''), s0)
                | Inr (success, s1) \<Rightarrow>
                    (if \<not> success then
                       (Inl (HTTPException 500 ''Failed to publish reminder event''),
                        blog ERROR ''Failed to publish ReminderEvent'' s1)
                     else (Inr (), s1)))))"

subsection \<open>Sample values\<close>

text \<open>Concrete values on which the properties below are exercised.\<close>

definition example_now :: datetime where
  "example_now = \<lparr>year = 2026, month = 1, day = 15, hour = 12, minute = 0, second = 0,
                   microsecond = 0, tzinfo = Some 0\<rparr>"

definition example_ledger :: consumer_state where
  "example_ledger =
     \<lparr>processed_events = [\<lparr>event_id = 1, service_name = ''audit-service'',
                            processed_at = example_now\<rparr>],
      audit_entries = [], posts = [], log = []\<rparr>"

definition example_cfg :: settings where
  "example_cfg = \<lparr>DAPR_HTTP_PORT = 3500, BACKEND_APP_ID = ''todo-backend''\<rparr>"


definition example_task_data :: dict where
  "example_task_data =
     [(''title'', JStr ''Pay rent''), (''is_recurring'', JBool True),
      (''recurrence_rule'', JStr ''monthly''), (''due_at'', JStr ''2026-01-31T00:00:00Z'')]"

definition example_data :: dict where
  "example_data =
     [(''event_type'', JStr ''completed''),
      (''task_id'', JStr ''00000000-0000-0000-0000-000000000009''),
      (''user_id'', JStr ''alice''), (''task_data'', JObj example_task_data)]"

definition example_completed_event :: dict where
  "example_completed_event =
     [(''id'', JStr ''00000000-0000-0000-0000-000000000002''), (''data'', JObj example_data)]"

definition example_task :: task where
  "example_task =
     \<lparr>task_id = 9, task_user_id = ''alice'', title = ''Pay rent'', description = None,
      completed = False, task_created_at = example_now, task_updated_at = example_now,
      priority = None, tags = [], due_at = None, is_recurring = False,
      recurrence_rule = None\<rparr>"

definition example_reminder :: reminder where
  "example_reminder =
     \<lparr>reminder_id = 5, reminder_task_id = 8, reminder_user_id = ''bob'',
      remind_at = example_now\<lparr>month := 3\<rparr>, reminder_created_at = example_now\<rparr>"

definition example_backend :: backend_state where
  "example_backend =
     \<lparr>tasks = [example_task], reminders = [example_reminder], broker_posts = [],
      job_requests = [], backend_log = []\<rparr>"

section \<open>Properties\<close>

text \<open>
  Two consumer states agree on every effect a delivery can have: the ledger, the audit
  table, the requests to the task-creation interface, and the notifications logged.
\<close>

definition same_effects :: "consumer_state \<Rightarrow> consumer_state \<Rightarrow> bool" where
  "same_effects s s' =
     (processed_events s' = processed_events s \<and> audit_entries s' = audit_entries s
      \<and> posts s' = posts s \<and> notifications s' = notifications s)"

lemma same_effects_logger:
  "m \<noteq> NOTIFICATION \<Longrightarrow> same_effects s (logger l m vs s)"
  by (simp add: same_effects_def logger_def notifications_def)

lemma UUID_truthy: "UUID x = Inr u \<Longrightarrow> truthy x"
  by (cases x) (auto simp: uuid_of_hex_def str_strip_def)

lemma session_get_present:
  "u \<in> event_id ` set (processed_events s) \<Longrightarrow> session_get s u \<noteq> None"
  by (auto simp: session_get_def find_None_iff)

lemma UUID_example: "UUID (JStr ''00000000-0000-0000-0000-000000000001'') = Inr 1"
  by (simp add: uuid_of_hex_def str_strip_def hex_val_def)

text \<open>
  C2. An envelope without an id (the field is absent, so \<^verbatim>\<open>get\<close> reads \<^verbatim>\<open>None\<close>; the
  same holds for any falsy id) is answered \<open>DROP\<close> by each of the three consumers, and the
  delivery leaves the ledger, the audit table, the outbound requests and the
  notifications as they were.
\<close>

theorem no_id_is_dropped:
  assumes "\<not> truthy (dict_get event_data ''id'')"
  shows "(\<exists>s'. handle_reminder_event now event_data s = Inr (DROP, s') \<and> same_effects s s')
       \<and> (\<exists>s'. audit_handle_task_event now fresh event_data s = Inr (DROP, s')
                \<and> same_effects s s')
       \<and> (\<exists>s'. recurring_handle_task_event cfg now outcome event_data s = Inr (DROP, s')
                \<and> same_effects s s')"
  using assms
  by (simp add: handle_reminder_event_def audit_handle_task_event_def
        recurring_handle_task_event_def same_effects_logger NOTIFICATION_def)

text \<open>
  C1. When the id of the envelope is already in the consumer's ledger, each of the three
  consumers answers \<open>SUCCESS\<close> and the redelivery has no effect: no ledger row, no audit
  entry, no task-creation request and no notification is added.
\<close>

theorem duplicate_is_suppressed:
  assumes "UUID (dict_get event_data ''id'') = Inr u"
    and "u \<in> event_id ` set (processed_events s)"
  shows "(\<exists>s'. handle_reminder_event now event_data s = Inr (SUCCESS, s') \<and> same_effects s s')
       \<and> (\<exists>s'. audit_handle_task_event now fresh event_data s = Inr (SUCCESS, s')
                \<and> same_effects s s')
       \<and> (\<exists>s'. recurring_handle_task_event cfg now outcome event_data s = Inr (SUCCESS, s')
                \<and> same_effects s s')"
  using assms UUID_truthy[OF assms(1)] session_get_present[OF assms(2)]
  by (simp add: handle_reminder_event_def audit_handle_task_event_def
        recurring_handle_task_event_def same_effects_logger NOTIFICATION_def attempt_def)

theorem no_id_is_dropped_witness:
  "\<not> truthy (dict_get [(''data'', JObj [])] ''id'')
   \<and> (\<exists>s'. handle_reminder_event example_now [(''data'', JObj [])] example_ledger
              = Inr (DROP, s') \<and> same_effects example_ledger s')
   \<and> (\<exists>s'. audit_handle_task_event example_now 7 [(''data'', JObj [])] example_ledger
              = Inr (DROP, s') \<and> same_effects example_ledger s')
   \<and> (\<exists>s'. recurring_handle_task_event example_cfg example_now (Response 200 [])
              [(''data'', JObj [])] example_ledger
              = Inr (DROP, s') \<and> same_effects example_ledger s')"
proof -
  have h: "\<not> truthy (dict_get [(''data'', JObj [])] ''id'')"
    by (simp add: dict_get_def dict_get_default_def)
  from no_id_is_dropped [OF h, of example_now example_ledger 7 example_cfg "Response 200 []"] h
  show ?thesis by blast
qed

theorem duplicate_is_suppressed_witness:
  "UUID (dict_get [(''id'', JStr ''00000000-0000-0000-0000-000000000001'')] ''id'') = Inr 1
   \<and> 1 \<in> event_id ` set (processed_events example_ledger)
   \<and> (\<exists>s'. handle_reminder_event example_now
               [(''id'', JStr ''00000000-0000-0000-0000-000000000001'')] example_ledger
              = Inr (SUCCESS, s') \<and> same_effects example_ledger s')
   \<and> (\<exists>s'. audit_handle_task_event example_now 7
               [(''id'', JStr ''00000000-0000-0000-0000-000000000001'')] example_ledger
              = Inr (SUCCESS, s') \<and> same_effects example_ledger s')
   \<and> (\<exists>s'. recurring_handle_task_event example_cfg example_now (Response 200 [])
               [(''id'', JStr ''00000000-0000-0000-0000-000000000001'')] example_ledger
              = Inr (SUCCESS, s') \<and> same_effects example_ledger s')"
proof -
  have a: "UUID (dict_get [(''id'', JStr ''00000000-0000-0000-0000-000000000001'')] ''id'') = Inr 1"
    using UUID_example by (simp add: dict_get_def dict_get_default_def)
  have b: "1 \<in> event_id ` set (processed_events example_ledger)"
    by (simp add: example_ledger_def)
  from duplicate_is_suppressed [OF a b, of example_now 7 example_cfg "Response 200 []"] a b
  show ?thesis by blast
qed

subsection \<open>Calendar arithmetic\<close>






















subsection \<open>Reading back what \<^verbatim>\<open>isoformat\<close> writes\<close>




lemma pad_numeral:
  "pad (numeral k) n = pad (pred_numeral k) (n div 10) @ [digit_char (n mod 10)]"
  unfolding numeral_eq_Suc [of k] by (rule pad.simps(2))

lemma pad_1: "pad 1 n = [digit_char (n mod 10)]"
  unfolding One_nat_def by simp











lemma set_sep:
  "CHR ''-'' \<notin> set '':''" "CHR ''+'' \<notin> set '':''" "CHR ''-'' \<notin> set ''.''" "CHR ''+'' \<notin> set ''.''"
  by simp_all






lemma fromisoformat_example:
  "fromisoformat ''2026-01-31T00:00:00+00:00'' =
     Some \<lparr>year = 2026, month = 1, day = 31, hour = 0, minute = 0, second = 0,
           microsecond = 0, tzinfo = Some 0\<rparr>"
  by (simp add: fromisoformat_def slice_def read_nat_def digit_val_def
        parse_isoformat_time_def parse_hh_mm_ss_ff_def valid_datetime_def MAXYEAR_def
        days_in_month_def is_leap_def)

text \<open>
  A date followed by a separator and nothing else is not read: the caller falls back to
  the clock, as it does on the \<^verbatim>\<open>ValueError\<close> of the library.
\<close>

lemma fromisoformat_bare_separator: "fromisoformat ''2026-01-31T'' = None"
  by (simp add: fromisoformat_def slice_def read_nat_def digit_val_def
        parse_isoformat_time_def)

lemma compute_next_due_date_bare_separator:
  "compute_next_due_date now (JStr ''2026-01-31T'') rule
     = compute_next_due_date now JNull rule"
  by (simp add: compute_next_due_date_def fromisoformat_bare_separator)

lemma str_replace_example:
  "str_replace ''Z'' ''+00:00'' ''2026-01-31T00:00:00Z'' = ''2026-01-31T00:00:00+00:00''"
  by simp




subsection \<open>Next due date\<close>


lemma compute_next_due_date_example:
  "compute_next_due_date now (JStr ''2026-01-31T00:00:00Z'') (JStr ''monthly'')
     = Inr ''2026-02-28T00:00:00+00:00''"
  by (simp add: compute_next_due_date_def str_replace_example fromisoformat_example
        relativedelta_add_def days_in_month_def is_leap_def MAXYEAR_def attempt_def Let_def
        isoformat_def format_offset_def pad_numeral pad_1 digit_char_def
        del: str_replace.simps)




subsection \<open>Recurrence Engine\<close>

lemma session_get_absent:
  "u \<notin> event_id ` set (processed_events s) \<Longrightarrow> session_get s u = None"
  by (auto simp: session_get_def find_None_iff)

text \<open>
  C8. When the Recurrence Engine has matched a completed recurring event (new id, a
  truthy recurrence flag and rule, a next due date computed) and the task-creation call
  raises or answers with a status other than 200 and 201, the handler returns \<open>RETRY\<close>,
  the request has been sent and the ledger is as before; so the redelivered event is not
  taken for a duplicate: handled again with a successful answer it sends the request
  again, returns \<open>SUCCESS\<close> and only then enters the id in the ledger.
\<close>

theorem creation_failure_retries:
  assumes "UUID (dict_get event_data ''id'') = Inr u"
    and "u \<notin> event_id ` set (processed_events s)"
    and "dict_get_default event_data ''data'' (JObj []) = JObj data"
    and "dict_get_default data ''task_data'' (JObj []) = JObj task_data"
    and "dict_get data ''event_type'' = JStr ''completed''"
    and "truthy (dict_get_default task_data ''is_recurring'' (JBool False))"
    and "truthy (dict_get task_data ''recurrence_rule'')"
    and "compute_next_due_date now (dict_get task_data ''due_at'')
           (dict_get task_data ''recurrence_rule'') = Inr next_due_at"
    and "outcome = Raised e \<or> (outcome = Response code body \<and> code \<noteq> 200 \<and> code \<noteq> 201)"
  shows "\<exists>s'. recurring_handle_task_event cfg now outcome event_data s = Inr (RETRY, s')
           \<and> processed_events s' = processed_events s
           \<and> length (posts s') = length (posts s) + 1
           \<and> (\<exists>s''. recurring_handle_task_event cfg now (Response 201 body') event_data s'
                       = Inr (SUCCESS, s'')
                  \<and> u \<in> event_id ` set (processed_events s'')
                  \<and> length (posts s'') = length (posts s') + 1)"
proof -
  have t: "truthy (dict_get event_data ''id'')" by (rule UUID_truthy [OF assms(1)])
  have g: "session_get s u = None" by (rule session_get_absent [OF assms(2)])
  define req where "req = \<lparr>post_port = DAPR_HTTP_PORT cfg, post_app_id = BACKEND_APP_ID cfg,
       post_user_id = dict_get data ''user_id'',
       post_json = new_task_payload task_data next_due_at (dict_get task_data ''recurrence_rule'')\<rparr>"
  define s' where "s' = logger ERROR
       (case outcome of Raised x \<Rightarrow> ''Error creating recurring task''
        | Response c b \<Rightarrow> ''Failed to create recurring task'')
       (case outcome of Raised x \<Rightarrow> [] | Response c b \<Rightarrow> [JInt (int c), JStr b])
       (s\<lparr>posts := posts s @ [req]\<rparr>)"
  have first: "recurring_handle_task_event cfg now outcome event_data s = Inr (RETRY, s')"
    using assms t g
    by (auto simp: recurring_handle_task_event_def create_next_task_def attempt_def Let_def
          s'_def req_def)
  have ledger: "processed_events s' = processed_events s"
    and sent: "posts s' = posts s @ [req]"
    by (simp_all add: s'_def logger_def)
  have g': "session_get s' u = None"
    by (rule session_get_absent) (simp add: ledger assms(2))
  have second: "\<exists>s''. recurring_handle_task_event cfg now (Response 201 body') event_data s'
                       = Inr (SUCCESS, s'')
                  \<and> u \<in> event_id ` set (processed_events s'')
                  \<and> length (posts s'') = length (posts s') + 1"
    using assms(1,3-8) t g'
    by (simp add: recurring_handle_task_event_def create_next_task_def attempt_def Let_def
          record_processed_def logger_def)
  from first ledger sent second show ?thesis by auto
qed


lemma UUID_example_2: "UUID (JStr ''00000000-0000-0000-0000-000000000002'') = Inr 2"
  by (simp add: uuid_of_hex_def str_strip_def hex_val_def)

theorem creation_failure_retries_witness:
  "\<exists>s'. recurring_handle_task_event example_cfg example_now (Response 500 ''unavailable'')
           example_completed_event example_ledger = Inr (RETRY, s')
         \<and> processed_events s' = processed_events example_ledger
         \<and> length (posts s') = length (posts example_ledger) + 1
         \<and> (\<exists>s''. recurring_handle_task_event example_cfg example_now (Response 201 ''created'')
                      example_completed_event s' = Inr (SUCCESS, s'')
                \<and> 2 \<in> event_id ` set (processed_events s'')
                \<and> length (posts s'') = length (posts s') + 1)"
proof -
  have a: "UUID (dict_get example_completed_event ''id'') = Inr 2"
    using UUID_example_2
    by (simp add: example_completed_event_def dict_get_def dict_get_default_def)
  have b: "2 \<notin> event_id ` set (processed_events example_ledger)"
    by (simp add: example_ledger_def)
  have c: "dict_get_default example_completed_event ''data'' (JObj []) = JObj example_data"
    by (simp add: example_completed_event_def dict_get_default_def)
  have d: "dict_get_default example_data ''task_data'' (JObj []) = JObj example_task_data"
    by (simp add: example_data_def dict_get_default_def)
  have e: "dict_get example_data ''event_type'' = JStr ''completed''"
    by (simp add: example_data_def dict_get_def dict_get_default_def)
  have f: "truthy (dict_get_default example_task_data ''is_recurring'' (JBool False))"
    by (simp add: example_task_data_def dict_get_default_def)
  have g: "truthy (dict_get example_task_data ''recurrence_rule'')"
    by (simp add: example_task_data_def dict_get_def dict_get_default_def)
  have r: "dict_get example_task_data ''recurrence_rule'' = JStr ''monthly''"
      "dict_get example_task_data ''due_at'' = JStr ''2026-01-31T00:00:00Z''"
    by (simp_all add: example_task_data_def dict_get_def dict_get_default_def)
  have h: "compute_next_due_date example_now (dict_get example_task_data ''due_at'')
           (dict_get example_task_data ''recurrence_rule'') = Inr ''2026-02-28T00:00:00+00:00''"
    unfolding r by (rule compute_next_due_date_example)
  have i: "Response 500 ''unavailable'' = Raised TransportError
           \<or> (Response 500 ''unavailable'' = Response 500 ''unavailable''
                \<and> (500::nat) \<noteq> 200 \<and> (500::nat) \<noteq> 201)"
    by simp
  show ?thesis
    by (rule creation_failure_retries [OF a b c d e f g h i])
qed


subsection \<open>Malformed identifiers\<close>

text \<open>
  C9. The handlers do not return a tri-state result for every event: an envelope whose id
  is a non-empty string that is not a UUID makes \<^verbatim>\<open>UUID(event_id)\<close> raise \<^verbatim>\<open>ValueError\<close>
  in each of the three handlers, before any guard, and in the Audit Recorder a new event
  whose \<^verbatim>\<open>task_id\<close> is such a string raises it as well.
\<close>

theorem malformed_uuid_raises:
  "handle_reminder_event example_now [(''id'', JStr ''not-a-uuid'')] example_ledger
     = Inl ValueError
   \<and> audit_handle_task_event example_now 7 [(''id'', JStr ''not-a-uuid'')] example_ledger
     = Inl ValueError
   \<and> recurring_handle_task_event example_cfg example_now (Response 201 [])
       [(''id'', JStr ''not-a-uuid'')] example_ledger
     = Inl ValueError
   \<and> audit_handle_task_event example_now 7
       [(''id'', JStr ''00000000-0000-0000-0000-000000000002''),
        (''data'', JObj [(''event_type'', JStr ''created''), (''task_id'', JStr ''not-a-uuid''),
                         (''user_id'', JStr ''alice'')])]
       example_ledger
     = Inl ValueError"
proof -
  have bad: "uuid_of_hex ''not-a-uuid'' = Inl ValueError"
    by (simp add: uuid_of_hex_def str_strip_def)
  have good: "uuid_of_hex ''00000000-0000-0000-0000-000000000002'' = Inr 2"
    using UUID_example_2 by simp
  have absent: "session_get example_ledger 2 = None"
    by (simp add: session_get_def example_ledger_def)
  show ?thesis
    using absent
    by (simp add: handle_reminder_event_def audit_handle_task_event_def
          recurring_handle_task_event_def dict_get_def dict_get_default_def attempt_def
          bad good VALID_EVENT_TYPES_def Let_def)
qed

theorem malformed_uuid_raises_witness:
  "\<exists>e. handle_reminder_event example_now [(''id'', JStr ''not-a-uuid'')] example_ledger = Inl e"
  using malformed_uuid_raises by blast

subsection \<open>Event Publisher and Job Scheduler Client\<close>

lemma publish_result:
  "\<exists>b s' m. publish topic ok_msg fail_msg ce outcome s = Inr (b, s')
      \<and> (b \<longleftrightarrow> (\<exists>body. outcome = Response 200 body))
      \<and> backend_log s' = backend_log s @ [Log (if b then INFO else ERROR) m []]"
  by (cases outcome) (auto simp: publish_def blog_def Let_def)

text \<open>
  C4. Each of the three publish operations returns a Boolean and never an exception,
  whatever its arguments and whatever the broker call comes to. The Boolean is \<open>True\<close>
  exactly when the call was made and answered with status 200; in every other case (an
  argument that cannot be read or validated, a non-200 status, an exception of the call)
  it is \<open>False\<close>, and the line logged is an error line.
\<close>

theorem publish_never_raises:
  "(\<exists>b s' m. publish_task_event now fresh outcome event_type task_arg user_id s = Inr (b, s')
      \<and> (b \<longleftrightarrow> (\<exists>t. task_arg = Inr t) \<and> (\<exists>body. outcome = Response 200 body))
      \<and> backend_log s' = backend_log s @ [Log (if b then INFO else ERROR) m []])
   \<and> (\<exists>b s' m. publish_task_update_event now fresh outcome change_type task_id_arg user_id s
                  = Inr (b, s')
      \<and> (b \<longleftrightarrow> (\<exists>t. task_id_arg = Inr t) \<and> (\<exists>body. outcome = Response 200 body))
      \<and> backend_log s' = backend_log s @ [Log (if b then INFO else ERROR) m []])
   \<and> (\<exists>b s' m. publish_reminder_event now fresh outcome rid task_arg user_id rat s = Inr (b, s')
      \<and> (b \<longleftrightarrow> (\<exists>t. task_arg = Inr t) \<and> (\<exists>body. outcome = Response 200 body))
      \<and> backend_log s' = backend_log s @ [Log (if b then INFO else ERROR) m []])"
proof (intro conjI)
  show "\<exists>b s' m. publish_task_event now fresh outcome event_type task_arg user_id s = Inr (b, s')
      \<and> (b \<longleftrightarrow> (\<exists>t. task_arg = Inr t) \<and> (\<exists>body. outcome = Response 200 body))
      \<and> backend_log s' = backend_log s @ [Log (if b then INFO else ERROR) m []]"
  proof (cases task_arg)
    case (Inl e)
    then show ?thesis by (auto simp: publish_task_event_def blog_def)
  next
    case (Inr t)
    then show ?thesis using publish_result by (simp add: publish_task_event_def Let_def)
  qed
  show "\<exists>b s' m. publish_task_update_event now fresh outcome change_type task_id_arg user_id s
                  = Inr (b, s')
      \<and> (b \<longleftrightarrow> (\<exists>t. task_id_arg = Inr t) \<and> (\<exists>body. outcome = Response 200 body))
      \<and> backend_log s' = backend_log s @ [Log (if b then INFO else ERROR) m []]"
  proof (cases task_id_arg)
    case (Inl e)
    then show ?thesis by (auto simp: publish_task_update_event_def blog_def)
  next
    case (Inr t)
    then show ?thesis using publish_result by (simp add: publish_task_update_event_def Let_def)
  qed
  show "\<exists>b s' m. publish_reminder_event now fresh outcome rid task_arg user_id rat s = Inr (b, s')
      \<and> (b \<longleftrightarrow> (\<exists>t. task_arg = Inr t) \<and> (\<exists>body. outcome = Response 200 body))
      \<and> backend_log s' = backend_log s @ [Log (if b then INFO else ERROR) m []]"
  proof (cases task_arg)
    case (Inl e)
    then show ?thesis by (auto simp: publish_reminder_event_def blog_def)
  next
    case (Inr t)
    then show ?thesis using publish_result by (simp add: publish_reminder_event_def Let_def)
  qed
qed

text \<open>
  C5. \<^verbatim>\<open>cancel_reminder_job\<close> returns \<open>True\<close> both when the scheduler deletes the job (204)
  and when it reports the job not found (404), and \<open>False\<close> on every other outcome,
  exceptions included; it never raises.
\<close>

theorem cancel_missing_job_succeeds:
  "\<exists>b s'. cancel_reminder_job outcome name s = Inr (b, s')
      \<and> (b \<longleftrightarrow> (\<exists>body. outcome = Response 204 body \<or> outcome = Response 404 body))
      \<and> job_requests s' = job_requests s @ [Cancel name]"
  by (cases outcome) (auto simp: cancel_reminder_job_def blog_def Let_def)

subsection \<open>Reminder routes\<close>

text \<open>
  C6. A request to create a reminder whose \<^verbatim>\<open>remind_at\<close> (a naive value taken as UTC) is
  not after the clock is answered with an error and leaves the state as it was: no
  reminder row, no request to the scheduler. For a caller that passes the access check
  the error is the 400 \<^verbatim>\<open>remind_at must be in the future\<close>.
\<close>

theorem past_reminder_rejected:
  assumes "instant (as_utc reminder_data_remind_at) \<le> instant now"
  shows "\<exists>err. create_reminder now fresh outcome user_id tid reminder_data_remind_at
                  token_user_id s = (Inl err, s)
           \<and> (token_user_id = user_id
                \<longrightarrow> err = HTTPException 400 ''remind_at must be in the future'')"
  using assms
  by (simp add: create_reminder_def verify_user_access_def Let_def)

text \<open>
  C10. When the access check passes, \<^verbatim>\<open>remind_at\<close> is in the future and the task exists,
  a failure to schedule the job (an exception, or a status other than 200 and 201) does
  not fail the request: the reminder is returned, its row stays in the table, the request
  to the scheduler was made, and the failure only shows as a warning in the log.
\<close>

theorem reminder_kept_when_scheduling_fails:
  assumes "token_user_id = user_id"
    and "instant now < instant (as_utc reminder_data_remind_at)"
    and "select_task s tid token_user_id = Some t"
    and "outcome = Raised e \<or> (outcome = Response code body \<and> code \<noteq> 200 \<and> code \<noteq> 201)"
  shows "\<exists>r s'. create_reminder now fresh outcome user_id tid reminder_data_remind_at
                   token_user_id s = (Inr r, s')
           \<and> r = \<lparr>reminder_id = fresh, reminder_task_id = tid,
                   reminder_user_id = token_user_id, remind_at = reminder_data_remind_at,
                   reminder_created_at = now\<rparr>
           \<and> reminders s' = reminders s @ [r]
           \<and> (\<exists>jp. job_requests s' = job_requests s @ [Schedule jp]
                     \<and> jp_name jp = Reminder_job fresh)
           \<and> last (backend_log s') = Log WARNING ''Failed to schedule Dapr job for reminder'' []"
  using assms
  by (auto simp: create_reminder_def verify_user_access_def Let_def schedule_reminder_job_def
        blog_def)


theorem publish_never_raises_witness:
  "(\<exists>b s' m. publish_task_event example_now 7 (Response 503 ''unavailable'') ''created''
                  (Inr example_task) ''alice'' example_backend = Inr (b, s')
      \<and> (b \<longleftrightarrow> (\<exists>t. (Inr example_task :: exn + task) = Inr t)
                 \<and> (\<exists>body. Response 503 ''unavailable'' = Response 200 body))
      \<and> backend_log s' = backend_log example_backend @ [Log (if b then INFO else ERROR) m []])
   \<and> (\<exists>b s' m. publish_task_update_event example_now 7 (Response 503 ''unavailable'')
                  ''created'' (Inr 9) ''alice'' example_backend = Inr (b, s')
      \<and> (b \<longleftrightarrow> (\<exists>t. (Inr 9 :: exn + uuid) = Inr t)
                 \<and> (\<exists>body. Response 503 ''unavailable'' = Response 200 body))
      \<and> backend_log s' = backend_log example_backend @ [Log (if b then INFO else ERROR) m []])
   \<and> (\<exists>b s' m. publish_reminder_event example_now 7 (Response 503 ''unavailable'') 5
                  (Inr example_task) ''alice'' example_now example_backend = Inr (b, s')
      \<and> (b \<longleftrightarrow> (\<exists>t. (Inr example_task :: exn + task) = Inr t)
                 \<and> (\<exists>body. Response 503 ''unavailable'' = Response 200 body))
      \<and> backend_log s' = backend_log example_backend @ [Log (if b then INFO else ERROR) m []])"
  by (rule publish_never_raises)

theorem cancel_missing_job_succeeds_witness:
  "\<exists>b s'. cancel_reminder_job (Response 404 ''not found'') (Reminder_job 5) example_backend
             = Inr (b, s')
      \<and> (b \<longleftrightarrow> (\<exists>body. Response 404 ''not found'' = Response 204 body
                          \<or> Response 404 ''not found'' = Response 404 body))
      \<and> job_requests s' = job_requests example_backend @ [Cancel (Reminder_job 5)]"
  by (rule cancel_missing_job_succeeds)

theorem past_reminder_rejected_witness:
  "instant (as_utc example_now) \<le> instant example_now
   \<and> (\<exists>err. create_reminder example_now 7 (Response 200 []) ''alice'' 9 example_now
                ''alice'' example_backend = (Inl err, example_backend)
           \<and> (''alice'' = ''alice''
                \<longrightarrow> err = HTTPException 400 ''remind_at must be in the future''))"
proof -
  have a: "instant (as_utc example_now) \<le> instant example_now"
    by (simp add: as_utc_def example_now_def)
  from past_reminder_rejected [OF a] a show ?thesis by blast
qed

theorem reminder_kept_when_scheduling_fails_witness:
  "\<exists>r s'. create_reminder example_now 7 (Response 500 ''unavailable'') ''alice'' 9
             (example_now\<lparr>hour := 13\<rparr>) ''alice'' example_backend = (Inr r, s')
           \<and> r = \<lparr>reminder_id = 7, reminder_task_id = 9,
                   reminder_user_id = ''alice'', remind_at = example_now\<lparr>hour := 13\<rparr>,
                   reminder_created_at = example_now\<rparr>
           \<and> reminders s' = reminders example_backend @ [r]
           \<and> (\<exists>jp. job_requests s' = job_requests example_backend @ [Schedule jp]
                     \<and> jp_name jp = Reminder_job 7)
           \<and> last (backend_log s') = Log WARNING ''Failed to schedule Dapr job for reminder'' []"
proof -
  have a: "''alice'' = ''alice''" by simp
  have b: "instant example_now < instant (as_utc (example_now\<lparr>hour := 13\<rparr>))"
    by (simp add: as_utc_def example_now_def instant_def toordinal_def)
  have c: "select_task example_backend 9 ''alice'' = Some example_task"
    by (simp add: select_task_def example_backend_def example_task_def)
  have d: "Response 500 ''unavailable'' = Raised TransportError
           \<or> (Response 500 ''unavailable'' = Response 500 ''unavailable''
                \<and> (500::nat) \<noteq> 200 \<and> (500::nat) \<noteq> 201)"
    by simp
  show ?thesis by (rule reminder_kept_when_scheduling_fails [OF a b c d])
qed

subsection \<open>Reminder Callback Handler\<close>

text \<open>What the handler does with the outcome of its two lookups.\<close>

lemma trigger_reminder_not_found:
  "get_reminder s rid = None \<or> select_task s tid user_id = None \<Longrightarrow>
     \<exists>d s'. trigger_reminder now fresh outcome rid tid user_id s = (Inl (HTTPException 404 d), s')
        \<and> broker_posts s' = broker_posts s"
  by (auto simp: trigger_reminder_def get_reminder_def select_task_def blog_def Let_def
        split: option.splits)

lemma trigger_reminder_found:
  "get_reminder s rid = Some r \<Longrightarrow> select_task s tid user_id = Some t \<Longrightarrow>
     \<exists>res s' ce. trigger_reminder now fresh outcome rid tid user_id s = (res, s')
        \<and> broker_posts s' = broker_posts s @ [(''reminders'', ce)]
        \<and> res = (if \<exists>body. outcome = Response 200 body then Inr ()
                  else Inl (HTTPException 500 ''Failed to publish reminder event''))"
  by (cases outcome)
     (auto simp: trigger_reminder_def get_reminder_def select_task_def blog_def Let_def
        publish_reminder_event_def publish_def)

text \<open>
  C7. The reminder is looked up by its id alone. Here reminder 5 belongs to \<^verbatim>\<open>bob\<close> and
  to task 8; a callback naming reminder 5, task 9 and user \<^verbatim>\<open>alice\<close>, who owns task 9,
  is answered \<^verbatim>\<open>ok\<close> and publishes a reminder event that carries the fire time of
  \<^verbatim>\<open>bob\<close>'s reminder, although the user-scoped lookup that \<^verbatim>\<open>delete_reminder\<close> makes
  finds no reminder for the same three values.
\<close>

theorem reminder_lookup_not_user_scoped:
  "reminder_user_id example_reminder = ''bob''
   \<and> reminder_task_id example_reminder = 8
   \<and> select_reminder example_backend 5 9 ''alice'' = None
   \<and> fst (trigger_reminder example_now 7 (Response 200 []) 5 9 ''alice'' example_backend)
       = Inr ()
   \<and> broker_posts (snd (trigger_reminder example_now 7 (Response 200 []) 5 9 ''alice''
                       example_backend))
       = [(''reminders'',
           CloudEvent 7 ''com.todo.reminder.trigger''
             (ReminderEventPayload 5 9 ''Pay rent'' ''alice'' None
                (remind_at example_reminder) example_now)
             example_now)]"
  by (simp add: trigger_reminder_def get_reminder_def select_task_def select_reminder_def
        blog_def Let_def publish_reminder_event_def publish_def example_backend_def
        example_reminder_def example_task_def)

end
